theory Spec2Isabelle
  imports Complex_Main
begin

section \<open>Column values\<close>

text \<open>
  A float64 value of a pandas column. Finite values are idealised as exact reals (no
  rounding, one unsigned zero); the two infinities and NaN are kept, because division by
  zero, \<open>float('inf')\<close> bin edges and null handling produce and consume them.
\<close>

datatype fnum = Fin real | PosInf | NegInf | NaN

fun isna :: "fnum \<Rightarrow> bool" where
  "isna NaN = True"
| "isna _ = False"

text \<open>The comparison \<open><\<close> of floats: false as soon as one side is NaN.\<close>

fun fless :: "fnum \<Rightarrow> fnum \<Rightarrow> bool" where
  "fless NaN _ = False"
| "fless _ NaN = False"
| "fless (Fin a) (Fin b) = (a < b)"
| "fless (Fin a) PosInf = True"
| "fless (Fin a) NegInf = False"
| "fless PosInf _ = False"
| "fless NegInf NegInf = False"
| "fless NegInf _ = True"

fun fle :: "fnum \<Rightarrow> fnum \<Rightarrow> bool" where
  "fle NaN _ = False"
| "fle _ NaN = False"
| "fle a b = (a = b \<or> fless a b)"

fun fadd :: "fnum \<Rightarrow> fnum \<Rightarrow> fnum" where
  "fadd NaN _ = NaN"
| "fadd _ NaN = NaN"
| "fadd (Fin a) (Fin b) = Fin (a + b)"
| "fadd PosInf NegInf = NaN"
| "fadd NegInf PosInf = NaN"
| "fadd PosInf _ = PosInf"
| "fadd NegInf _ = NegInf"
| "fadd (Fin a) b = b"

text \<open>
  Series division. pandas does not raise on a zero divisor: \<open>x / 0\<close> is an infinity with
  the sign of \<open>x\<close>, and \<open>0 / 0\<close> is NaN.
\<close>

fun fdiv :: "fnum \<Rightarrow> fnum \<Rightarrow> fnum" where
  "fdiv NaN _ = NaN"
| "fdiv _ NaN = NaN"
| "fdiv (Fin a) (Fin b) =
     (if b = 0 then (if a = 0 then NaN else if 0 < a then PosInf else NegInf)
      else Fin (a / b))"
| "fdiv (Fin a) _ = Fin 0"
| "fdiv PosInf (Fin b) = (if 0 \<le> b then PosInf else NegInf)"
| "fdiv NegInf (Fin b) = (if 0 \<le> b then NegInf else PosInf)"
| "fdiv _ _ = NaN"



text \<open>
  A cell of a numeric column as it is read from the bronze store: a number, a text that
  \<open>pd.to_numeric\<close> cannot read as a number, or null. A text that it can read is
  represented by its value. Source values are finite.
\<close>

datatype cell = Num real | Unparsable string | Null

text \<open>\<open>pd.to_numeric(col, errors='coerce')\<close>: what does not parse becomes null.\<close>

fun to_numeric :: "cell \<Rightarrow> cell" where
  "to_numeric (Num x) = Num x"
| "to_numeric (Unparsable s) = Null"
| "to_numeric Null = Null"

text \<open>The float64 value of a coerced cell; null is NaN.\<close>

fun fval :: "cell \<Rightarrow> fnum" where
  "fval (Num x) = Fin x"
| "fval _ = NaN"

text \<open>
  A cell of a date column: a timestamp in nanoseconds since the epoch, a text that
  \<open>pd.to_datetime\<close> cannot read, or null (NaT).
\<close>

datatype dcell = Stamp int | BadDate string | NaT

fun to_datetime :: "dcell \<Rightarrow> dcell" where
  "to_datetime (Stamp t) = Stamp t"
| "to_datetime (BadDate s) = NaT"
| "to_datetime NaT = NaT"

section \<open>\<open>pd.cut\<close>\<close>

text \<open>
  \<open>np.searchsorted(bins, x, side='left')\<close> on increasing bin edges: the number of
  edges strictly below \<open>x\<close>.
\<close>

definition searchsorted_left :: "fnum list \<Rightarrow> fnum \<Rightarrow> nat" where
  "searchsorted_left bins x = length (takeWhile (\<lambda>b. fless b x) bins)"

text \<open>
  \<open>pd.cut(x, bins, labels)\<close> with the defaults \<open>right=True\<close> and
  \<open>include_lowest=False\<close>, which every call of the transformer uses: the intervals are
  open on the left and closed on the right, and a value at or below the first edge, above
  the last edge, or null, gets no label (NaN in the column, \<open>None\<close> here).
\<close>

definition cut :: "fnum list \<Rightarrow> 'l list \<Rightarrow> fnum \<Rightarrow> 'l option" where
  "cut bins labels x =
     (let ids = searchsorted_left bins x
      in if isna x \<or> ids = length bins \<or> ids = 0 then None
         else Some (labels ! (ids - 1)))"

section \<open>Helpers of \<open>utils.py\<close>\<close>

definition ns_per_day :: int where
  "ns_per_day = 86400000000000"

text \<open>
  \<open>(a - b).dt.days\<close> on one pair of cells: the whole days of the time difference,
  rounded towards minus infinity as \<open>Timedelta.days\<close> does, and NaN (\<open>None\<close>) when a
  side is NaT. Both columns have been through \<open>to_datetime\<close> when this is used.
\<close>

fun timedelta_days :: "dcell \<Rightarrow> dcell \<Rightarrow> int option" where
  "timedelta_days (Stamp a) (Stamp b) = Some ((a - b) div ns_per_day)"
| "timedelta_days _ _ = None"

text \<open>
  The same on two series. Series arithmetic aligns on the index; the series here are
  columns of one frame, or the empty series \<open>pd.Series()\<close> standing for an absent column,
  so alignment is by position and a position missing on one side gives NaN.
\<close>

fun series_days :: "dcell list \<Rightarrow> dcell list \<Rightarrow> int option list" where
  "series_days (a # as) (b # bs) = timedelta_days a b # series_days as bs"
| "series_days [] bs = map (\<lambda>_. None) bs"
| "series_days as [] = map (\<lambda>_. None) as"

text \<open>
  \<open>calculate_readmission_flag\<close>. A comparison with NaN is false, so \<open>fillna(False)\<close>
  finds nothing to fill; \<open>astype(int)\<close> gives 1 for true and 0 for false.
\<close>

definition calculate_readmission_flag ::
  "dcell list \<Rightarrow> dcell list \<Rightarrow> dcell list \<Rightarrow> int \<Rightarrow> int list" where
  "calculate_readmission_flag admission_date discharge_date readmission_date days_threshold =
     (let admission_date = map to_datetime admission_date;
          discharge_date = map to_datetime discharge_date;
          readmission_date = map to_datetime readmission_date;
          days_between = series_days readmission_date discharge_date;
          readmission_flag =
            map (\<lambda>d. case d of None \<Rightarrow> False | Some n \<Rightarrow> n \<le> days_threshold \<and> 0 < n)
              days_between
      in map (\<lambda>b. if b then 1 else 0) readmission_flag)"



section \<open>The transformer: rows\<close>

text \<open>
  \<open>df.drop_duplicates(subset=[key])\<close>: of the rows with one key the first is kept.
  \<open>seen\<close> holds the keys met so far.
\<close>

fun drop_duplicates :: "('r \<Rightarrow> 'k) \<Rightarrow> 'k list \<Rightarrow> 'r list \<Rightarrow> 'r list" where
  "drop_duplicates key seen [] = []"
| "drop_duplicates key seen (r # rs) =
     (if key r \<in> set seen then drop_duplicates key seen rs
      else r # drop_duplicates key (key r # seen) rs)"

subsection \<open>Claims\<close>

text \<open>
  A claim row, with the columns the derived columns are computed from. The text and
  identifier columns (patient, provider, diagnosis and procedure codes, insurance type)
  are cleaned cell by cell and decide neither which rows stay nor any derived value
  below; they are left out.
\<close>

record claim =
  claim_id :: int
  admission_date :: dcell
  discharge_date :: dcell
  readmission_date :: dcell
  cost :: cell
  length_of_stay :: cell

text \<open>
  The claims frame. The column \<open>readmission_date\<close> may be absent from the frame (the code
  tests \<open>col in df.columns\<close> and reads it with \<open>df.get\<close>); when \<open>readmission_col\<close> is
  false the field \<open>readmission_date\<close> of the rows is not part of the frame.
\<close>

record 'r claims_df =
  readmission_col :: bool
  claims :: "'r list"

definition clean_claims_data :: "claim claims_df \<Rightarrow> claim claims_df" where
  "clean_claims_data df =
     (let rs = drop_duplicates claim_id [] (claims df);
          rs = map (\<lambda>r. r\<lparr>admission_date := to_datetime (admission_date r)\<rparr>) rs;
          rs = map (\<lambda>r. r\<lparr>discharge_date := to_datetime (discharge_date r)\<rparr>) rs;
          rs = (if readmission_col df
                then map (\<lambda>r. r\<lparr>readmission_date := to_datetime (readmission_date r)\<rparr>) rs
                else rs);
          rs = map (\<lambda>r. r\<lparr>cost := to_numeric (cost r)\<rparr>) rs;
          rs = filter (\<lambda>r. fless (Fin 0) (fval (cost r))) rs;
          rs = map (\<lambda>r. r\<lparr>length_of_stay := to_numeric (length_of_stay r)\<rparr>) rs;
          rs = filter (\<lambda>r. fle (Fin 0) (fval (length_of_stay r))
                          \<and> fle (fval (length_of_stay r)) (Fin 365)) rs
      in df\<lparr>claims := rs\<rparr>)"

text \<open>
  The claim row with its derived columns. The calendar columns (month, quarter, year and
  weekday of the admission) are left out.
\<close>

record claim_feat = claim +
  readmission_flag :: int
  cost_per_day :: fnum
  cost_category :: "string option"
  los_category :: "string option"

definition engineer_claims_features :: "claim claims_df \<Rightarrow> claim_feat claims_df" where
  "engineer_claims_features df =
     (let rs = claims df;
          flags = calculate_readmission_flag (map admission_date rs) (map discharge_date rs)
                    (if readmission_col df then map readmission_date rs else []) 30
      in \<lparr>readmission_col = readmission_col df,
          claims = map (\<lambda>(r, flag). claim.extend r
               (claim_feat.fields flag
                  (fdiv (fval (cost r)) (fadd (fval (length_of_stay r)) (Fin 1)))
                  (cut [Fin 0, Fin 1000, Fin 5000, Fin 15000, PosInf]
                     [''Low'', ''Medium'', ''High'', ''Very High''] (fval (cost r)))
                  (cut [Fin 0, Fin 1, Fin 3, Fin 7, PosInf]
                     [''Same Day'', ''Short'', ''Medium'', ''Long'']
                     (fval (length_of_stay r)))))
             (zip rs flags)\<rparr>)"

subsection \<open>Patients\<close>

text \<open>
  A patient row with the columns that decide the age category. Gender, race, zip code,
  insurance type, the chronic-condition count and the date of the last visit, and the
  columns derived from them, are left out.
\<close>

record patient =
  patient_id :: int
  age :: cell

definition clean_patients_data :: "patient list \<Rightarrow> patient list" where
  "clean_patients_data df =
     (let df = drop_duplicates patient_id [] df;
          df = map (\<lambda>r. r\<lparr>age := to_numeric (age r)\<rparr>) df;
          df = filter (\<lambda>r. fle (Fin 0) (fval (age r)) \<and> fle (fval (age r)) (Fin 120)) df
      in df)"

record patient_feat = patient +
  age_category :: "string option"

definition engineer_patients_features :: "patient list \<Rightarrow> patient_feat list" where
  "engineer_patients_features df =
     map (\<lambda>r. patient.extend r
            (patient_feat.fields
               (cut [Fin 0, Fin 18, Fin 35, Fin 50, Fin 65, Fin 100]
                  [''Pediatric'', ''Young Adult'', ''Adult'', ''Middle Age'', ''Senior'']
                  (fval (age r))))) df"

subsection \<open>Prescriptions\<close>

text \<open>
  A prescription row. \<open>medication_name\<close> is null (\<open>None\<close>) or a text; its
  normalisation (strip, title case) is not modelled, the field holds the name as it
  leaves the cleaning step. \<open>rx_cost\<close> is the column \<open>cost\<close> of the prescriptions
  frame. Patient, provider and prescription date are left out.
\<close>

record prescription =
  prescription_id :: int
  medication_name :: "string option"
  days_supplied :: cell
  days_prescribed :: cell
  quantity :: cell
  rx_cost :: cell


record prescription_feat = prescription +
  adherence_rate :: fnum
  adherence_category :: "string option"
  rx_cost_per_day :: fnum
  medication_category :: string



section \<open>The transformer: column labels, exceptions and the stores\<close>

text \<open>
  Which exception a transform raises depends on which column labels its frame has:
  \<open>df[c]\<close> raises KeyError when \<open>c\<close> is no column, and the validation step raises
  ValueError when a required column is missing. This layer follows the labels of the frame
  through the steps of each entity's transform, in the order in which the code reads and
  writes the columns; the values of the rows are the subject of the previous section.
  Exceptions that depend on the values or the dtype of a column (the \<open>.str\<close> and
  \<open>.dt\<close> accessors on a column of another kind, for one) are outside this layer.
\<close>

datatype exn =
    FileNotFoundError
  | KeyError string
  | ValueError string
  | SQLAlchemyError
  | OtherException






















section \<open>The loader\<close>

subsection \<open>Medication ids\<close>

text \<open>
  A prescription row as the loader writes it: the silver row with the column
  \<open>medication_id\<close>, which is null (\<open>None\<close>) where the lookup found nothing and nothing
  was filled in.
\<close>

record prescription_db = prescription_feat +
  medication_id :: "int option"

datatype log_record =
    Warning_unmapped nat "string option list"
  | Error_medication_ids exn

text \<open>\<open>Series.unique()\<close>: the distinct values in the order of their first appearance.\<close>

definition unique :: "'a list \<Rightarrow> 'a list" where
  "unique xs = drop_duplicates (\<lambda>x. x) [] xs"

text \<open>
  The dictionary \<open>{row[1]: row[0] for row in result}\<close> built from the rows
  \<open>(medication_id, medication_name)\<close> of the medications table: a later row with the
  same name replaces an earlier one.
\<close>

definition medication_map_of :: "(int \<times> string) list \<Rightarrow> string \<Rightarrow> int option" where
  "medication_map_of result = fold (\<lambda>row m. m(snd row \<mapsto> fst row)) result Map.empty"

text \<open>\<open>Series.map(dict)\<close> on one cell: a null name, or a name that is no key, gives null.\<close>

definition map_name :: "(string \<Rightarrow> int option) \<Rightarrow> string option \<Rightarrow> int option" where
  "map_name m name = (case name of None \<Rightarrow> None | Some n \<Rightarrow> m n)"

text \<open>
  \<open>_add_medication_ids\<close>. \<open>query\<close> is what reading the medications table gives: its rows,
  or the exception of the connection or the query. Every exception inside the method is
  caught: the error is logged and the whole column is set to 0. The method returns the
  frame and appends to the log.
\<close>

definition add_medication_ids ::
  "(exn + (int \<times> string) list) \<Rightarrow> prescription_feat list \<Rightarrow> log_record list
     \<Rightarrow> prescription_db list \<times> log_record list" where
  "add_medication_ids query df logged =
     (case query of
        Inr result \<Rightarrow>
          (let medication_map = medication_map_of result;
               ids = map (\<lambda>r. map_name medication_map (medication_name r)) df;
               unmapped = unique (map (\<lambda>(r, i). medication_name r)
                                    (filter (\<lambda>(r, i). i = None) (zip df ids)))
           in if 0 < length unmapped
              then (map (\<lambda>(r, i). prescription_feat.extend r
                           (prescription_db.fields (case i of None \<Rightarrow> Some 0 | Some k \<Rightarrow> Some k)))
                      (zip df ids),
                    logged @ [Warning_unmapped (length unmapped) unmapped])
              else (map (\<lambda>(r, i). prescription_feat.extend r (prescription_db.fields i))
                      (zip df ids),
                    logged))
      | Inl e \<Rightarrow>
          (map (\<lambda>r. prescription_feat.extend r (prescription_db.fields (Some 0))) df,
           logged @ [Error_medication_ids e]))"

subsection \<open>\<open>load_all_data\<close>\<close>






section \<open>The extractor\<close>

text \<open>
  A frame as the extractor builds it: the columns in order, each a label and its values.
  Timestamps are nanoseconds since the epoch, \<open>None\<close> is NaT.
\<close>

datatype column =
    Ints "int list"
  | Reals "real list"
  | Strs "string list"
  | Bools "bool list"
  | Dates "int option list"

type_synonym frame = "(string \<times> column) list"

text \<open>
  The library functions the generators call. \<open>'g\<close> is the state of numpy's global random
  generator: \<open>seed n\<close> is the state \<open>np.random.seed(n)\<close> installs, and every draw takes the
  state and returns the drawn values with the next state. \<open>date_range a b n\<close> is
  \<open>pd.date_range(a, b, periods=n)\<close>, which draws nothing. The functions are parameters of
  the model: nothing is assumed about them.
\<close>

record 'g numpy =
  seed :: "nat \<Rightarrow> 'g"
  randint :: "int \<Rightarrow> int \<Rightarrow> nat \<Rightarrow> 'g \<Rightarrow> int list \<times> 'g"
  randint1 :: "int \<Rightarrow> int \<Rightarrow> 'g \<Rightarrow> int \<times> 'g"
  choice_str :: "string list \<Rightarrow> nat \<Rightarrow> 'g \<Rightarrow> string list \<times> 'g"
  choice_int :: "int list \<Rightarrow> nat \<Rightarrow> 'g \<Rightarrow> int list \<times> 'g"
  choice_bool :: "bool list \<Rightarrow> nat \<Rightarrow> 'g \<Rightarrow> bool list \<times> 'g"
  choice_norepl :: "nat \<Rightarrow> nat \<Rightarrow> 'g \<Rightarrow> nat list \<times> 'g"
  exponential :: "real \<Rightarrow> nat \<Rightarrow> 'g \<Rightarrow> real list \<times> 'g"
  poisson :: "real \<Rightarrow> nat \<Rightarrow> 'g \<Rightarrow> int list \<times> 'g"
  date_range :: "string \<Rightarrow> string \<Rightarrow> nat \<Rightarrow> int list"

text \<open>
  \<open>_generate_sample_claims_data\<close>. The generator takes the state of the global random
  generator it is called in and returns the frame with the state it leaves. The draws are
  made in the order in which the dictionary literal and the two statements after it
  evaluate them. The readmission date is set on the drawn row positions, one drawn number
  of days after the discharge, and is NaT elsewhere.
\<close>

definition generate_sample_claims_data :: "'g numpy \<Rightarrow> 'g \<Rightarrow> frame \<times> 'g" where
  "generate_sample_claims_data np g0 =
     (let g = seed np 42;
          n_records = 10000;
          (patient_id, g) = randint np 1 5001 n_records g;
          (provider_id, g) = randint np 1 101 n_records g;
          admission_date = date_range np ''2020-01-01'' ''2023-12-31'' n_records;
          discharge_date = date_range np ''2020-01-02'' ''2024-01-01'' n_records;
          (diagnosis_code, g) = choice_str np
             [''E11.9'', ''I25.10'', ''F32.9'', ''M79.3'', ''K21.9'', ''G43.909'', ''M25.561'',
              ''R06.02'', ''Z87.891'', ''I10'', ''E78.5'', ''M54.5'', ''R50.9'', ''K59.00'']
             n_records g;
          (procedure_code, g) = choice_str np
             [''99213'', ''99214'', ''99215'', ''99281'', ''99282'', ''99283'', ''99284'',
              ''99285''] n_records g;
          (cost, g) = exponential np 5000 n_records g;
          (insurance_type, g) = choice_str np
             [''Medicare'', ''Medicaid'', ''Private'', ''Self-Pay''] n_records g;
          (length_of_stay, g) = poisson np 3 n_records g;
          (readmission_indices, g) = choice_norepl np n_records 1500 g;
          (days, g) = randint1 np 1 30 g;
          readmission_date =
            map (\<lambda>(i, d). if i \<in> set readmission_indices
                           then Some (d + days * ns_per_day) else None)
              (zip [0..<length discharge_date] discharge_date)
      in ([(''claim_id'', Ints (map int [1..<n_records + 1])),
           (''patient_id'', Ints patient_id),
           (''provider_id'', Ints provider_id),
           (''admission_date'', Dates (map Some admission_date)),
           (''discharge_date'', Dates (map Some discharge_date)),
           (''diagnosis_code'', Strs diagnosis_code),
           (''procedure_code'', Strs procedure_code),
           (''cost'', Reals cost),
           (''insurance_type'', Strs insurance_type),
           (''length_of_stay'', Ints length_of_stay),
           (''readmission_date'', Dates readmission_date)], g))"

definition generate_sample_patients_data :: "'g numpy \<Rightarrow> 'g \<Rightarrow> frame \<times> 'g" where
  "generate_sample_patients_data np g0 =
     (let g = seed np 42;
          n_patients = 5000;
          (age, g) = randint np 18 100 n_patients g;
          (gender, g) = choice_str np [''Male'', ''Female''] n_patients g;
          (race, g) = choice_str np
             [''White'', ''Black'', ''Hispanic'', ''Asian'', ''Other''] n_patients g;
          (zip_code, g) = randint np 10000 99999 n_patients g;
          (insurance_type, g) = choice_str np
             [''Medicare'', ''Medicaid'', ''Private'', ''Self-Pay''] n_patients g;
          (chronic_conditions, g) = choice_int np [0, 1, 2, 3, 4, 5] n_patients g;
          last_visit_date = date_range np ''2020-01-01'' ''2023-12-31'' n_patients
      in ([(''patient_id'', Ints (map int [1..<n_patients + 1])),
           (''age'', Ints age),
           (''gender'', Strs gender),
           (''race'', Strs race),
           (''zip_code'', Ints zip_code),
           (''insurance_type'', Strs insurance_type),
           (''chronic_conditions'', Ints chronic_conditions),
           (''last_visit_date'', Dates (map Some last_visit_date))], g))"

text \<open>The decimal digits of a number, for the city names \<open>City_1\<close>, \<open>City_2\<close>, ...\<close>

fun str_of_nat :: "nat \<Rightarrow> string" where
  "str_of_nat n =
     (if n < 10 then [char_of (48 + n)]
      else str_of_nat (n div 10) @ [char_of (48 + n mod 10)])"

definition generate_sample_providers_data :: "'g numpy \<Rightarrow> 'g \<Rightarrow> frame \<times> 'g" where
  "generate_sample_providers_data np g0 =
     (let g = seed np 42;
          n_providers = 100;
          hospital_names =
            [''General Hospital'', ''City Medical Center'', ''Regional Health System'',
             ''University Hospital'', ''Community Health Center'', ''Metro General'',
             ''St. Mary's Hospital'', ''Children's Hospital'', ''Memorial Medical'',
             ''Valley Regional Hospital''];
          states = [''CA'', ''NY'', ''TX'', ''FL'', ''IL'', ''PA'', ''OH'', ''GA'', ''NC'', ''MI''];
          (hospital_name, g) = choice_str np hospital_names n_providers g;
          (provider_type, g) = choice_str np
             [''Hospital'', ''Clinic'', ''Emergency'', ''Specialty''] n_providers g;
          (state, g) = choice_str np states n_providers g;
          city = map (\<lambda>i. ''City_'' @ str_of_nat i) [1..<n_providers + 1];
          (beds, g) = randint np 50 1000 n_providers g;
          (teaching_hospital, g) = choice_bool np [True, False] n_providers g
      in ([(''provider_id'', Ints (map int [1..<n_providers + 1])),
           (''hospital_name'', Strs hospital_name),
           (''provider_type'', Strs provider_type),
           (''state'', Strs state),
           (''city'', Strs city),
           (''beds'', Ints beds),
           (''teaching_hospital'', Bools teaching_hospital)], g))"

definition generate_sample_prescriptions_data :: "'g numpy \<Rightarrow> 'g \<Rightarrow> frame \<times> 'g" where
  "generate_sample_prescriptions_data np g0 =
     (let g = seed np 42;
          n_prescriptions = 15000;
          medications =
            [''Metformin'', ''Lisinopril'', ''Atorvastatin'', ''Metoprolol'', ''Omeprazole'',
             ''Amlodipine'', ''Hydrochlorothiazide'', ''Simvastatin'', ''Losartan'',
             ''Albuterol''];
          (patient_id, g) = randint np 1 5001 n_prescriptions g;
          (provider_id, g) = randint np 1 101 n_prescriptions g;
          (medication_name, g) = choice_str np medications n_prescriptions g;
          prescription_date = date_range np ''2020-01-01'' ''2023-12-31'' n_prescriptions;
          (days_supplied, g) = randint np 7 90 n_prescriptions g;
          (days_prescribed, g) = randint np 7 90 n_prescriptions g;
          (quantity, g) = randint np 30 500 n_prescriptions g;
          (cost, g) = exponential np 50 n_prescriptions g
      in ([(''prescription_id'', Ints (map int [1..<n_prescriptions + 1])),
           (''patient_id'', Ints patient_id),
           (''provider_id'', Ints provider_id),
           (''medication_name'', Strs medication_name),
           (''prescription_date'', Dates (map Some prescription_date)),
           (''days_supplied'', Ints days_supplied),
           (''days_prescribed'', Ints days_prescribed),
           (''quantity'', Ints quantity),
           (''cost'', Reals cost)], g))"

text \<open>
  The provenance record written with a bronze artifact: the dictionary of
  \<open>generate_etl_metadata\<close> updated with the source, the time of the extraction and the
  stage.
\<close>

record metadata =
  etl_timestamp :: string
  etl_version :: string
  pipeline_stage :: string
  source :: string
  extraction_timestamp :: string

text \<open>
  What an extraction reads and writes. \<open>files p\<close> is \<open>None\<close> when no file is at path \<open>p\<close>,
  and otherwise what \<open>pd.read_csv(p)\<close> does: the frame, or the exception it raises.
  \<open>bronze_store\<close> holds the artifacts by file name. \<open>clock\<close> gives the successive readings
  of \<open>datetime.now()\<close>, \<open>ticks\<close> counts the readings made.
\<close>

record 'g world =
  files :: "string \<Rightarrow> (exn + frame) option"
  bronze_store :: "string \<Rightarrow> (frame \<times> metadata) option"
  rng :: 'g
  clock :: "nat \<Rightarrow> string"
  ticks :: nat

definition now :: "'g world \<Rightarrow> string \<times> 'g world" where
  "now w = (clock w (ticks w), w\<lparr>ticks := ticks w + 1\<rparr>)"

text \<open>
  The test \<open>file_path and os.path.exists(file_path)\<close> with the read that follows it:
  \<open>None\<close> when the path is \<open>None\<close> or empty or names no file.
\<close>

definition read_source :: "'g world \<Rightarrow> string option \<Rightarrow> (exn + frame) option" where
  "read_source w file_path =
     (case file_path of
        None \<Rightarrow> None
      | Some p \<Rightarrow> if p = [] then None else files w p)"

text \<open>The metadata and the write to the bronze layer, which end every extraction.\<close>

definition save_bronze ::
  "string \<Rightarrow> string option \<Rightarrow> frame \<Rightarrow> 'g world \<Rightarrow> (exn + frame) \<times> 'g world" where
  "save_bronze name file_path df w =
     (let (t1, w) = now w;
          (t2, w) = now w;
          md = \<lparr>etl_timestamp = t1, etl_version = ''1.0.0'', pipeline_stage = ''bronze'',
                source = (case file_path of None \<Rightarrow> ''generated''
                          | Some p \<Rightarrow> if p = [] then ''generated'' else p),
                extraction_timestamp = t2\<rparr>
      in (Inr df, w\<lparr>bronze_store := (bronze_store w)(name \<mapsto> (df, md))\<rparr>))"

definition extract_claims_data ::
  "'g numpy \<Rightarrow> string option \<Rightarrow> 'g world \<Rightarrow> (exn + frame) \<times> 'g world" where
  "extract_claims_data np file_path w =
     (case read_source w file_path of
        Some (Inl e) \<Rightarrow> (Inl e, w)
      | Some (Inr df) \<Rightarrow> save_bronze ''claims_raw.parquet'' file_path df w
      | None \<Rightarrow>
          (case generate_sample_claims_data np (rng w) of
             (df, g) \<Rightarrow> save_bronze ''claims_raw.parquet'' file_path df (w\<lparr>rng := g\<rparr>)))"

definition extract_patients_data ::
  "'g numpy \<Rightarrow> string option \<Rightarrow> 'g world \<Rightarrow> (exn + frame) \<times> 'g world" where
  "extract_patients_data np file_path w =
     (case read_source w file_path of
        Some (Inl e) \<Rightarrow> (Inl e, w)
      | Some (Inr df) \<Rightarrow> save_bronze ''patients_raw.parquet'' file_path df w
      | None \<Rightarrow>
          (case generate_sample_patients_data np (rng w) of
             (df, g) \<Rightarrow> save_bronze ''patients_raw.parquet'' file_path df (w\<lparr>rng := g\<rparr>)))"

definition extract_providers_data ::
  "'g numpy \<Rightarrow> string option \<Rightarrow> 'g world \<Rightarrow> (exn + frame) \<times> 'g world" where
  "extract_providers_data np file_path w =
     (case read_source w file_path of
        Some (Inl e) \<Rightarrow> (Inl e, w)
      | Some (Inr df) \<Rightarrow> save_bronze ''providers_raw.parquet'' file_path df w
      | None \<Rightarrow>
          (case generate_sample_providers_data np (rng w) of
             (df, g) \<Rightarrow> save_bronze ''providers_raw.parquet'' file_path df (w\<lparr>rng := g\<rparr>)))"

definition extract_prescriptions_data ::
  "'g numpy \<Rightarrow> string option \<Rightarrow> 'g world \<Rightarrow> (exn + frame) \<times> 'g world" where
  "extract_prescriptions_data np file_path w =
     (case read_source w file_path of
        Some (Inl e) \<Rightarrow> (Inl e, w)
      | Some (Inr df) \<Rightarrow> save_bronze ''prescriptions_raw.parquet'' file_path df w
      | None \<Rightarrow>
          (case generate_sample_prescriptions_data np (rng w) of
             (df, g) \<Rightarrow>
               save_bronze ''prescriptions_raw.parquet'' file_path df (w\<lparr>rng := g\<rparr>)))"

section \<open>Properties of the transformer's rows\<close>

subsection \<open>Shared facts\<close>

lemma series_days_map:
  "series_days (map f rs) (map g rs) = map (\<lambda>r. timedelta_days (f r) (g r)) rs"
  by (induction rs) simp_all

lemma series_days_Nil: "series_days [] bs = map (\<lambda>_. None) bs"
  by (cases bs) simp_all

lemma zip_map_self: "zip rs (map f rs) = map (\<lambda>r. (r, f r)) rs"
  by (induction rs) simp_all

lemma to_datetime_idem: "to_datetime (to_datetime d) = to_datetime d"
  by (cases d) simp_all

lemma readmission_flag_present:
  "calculate_readmission_flag (map f rs) (map g rs) (map h rs) t =
     map (\<lambda>r. if (case timedelta_days (to_datetime (h r)) (to_datetime (g r)) of
                    None \<Rightarrow> False | Some n \<Rightarrow> n \<le> t \<and> 0 < n) then 1 else 0) rs"
  by (simp add: calculate_readmission_flag_def Let_def o_def
      series_days_map[of "to_datetime \<circ> h" _ "to_datetime \<circ> g", simplified comp_def])

lemma readmission_flag_absent:
  "calculate_readmission_flag (map f rs) (map g rs) [] t = map (\<lambda>r. 0) rs"
  by (simp add: calculate_readmission_flag_def Let_def series_days_Nil o_def)

text \<open>The engineered claims frame, row by row.\<close>

lemma engineer_claims_rows:
  "claims (engineer_claims_features df) =
     map (\<lambda>r. claim.extend r
            (claim_feat.fields
               (if readmission_col df \<and>
                   (case timedelta_days (to_datetime (readmission_date r))
                           (to_datetime (discharge_date r)) of
                      None \<Rightarrow> False | Some n \<Rightarrow> n \<le> 30 \<and> 0 < n) then 1 else 0)
               (fdiv (fval (cost r)) (fadd (fval (length_of_stay r)) (Fin 1)))
               (cut [Fin 0, Fin 1000, Fin 5000, Fin 15000, PosInf]
                  [''Low'', ''Medium'', ''High'', ''Very High''] (fval (cost r)))
               (cut [Fin 0, Fin 1, Fin 3, Fin 7, PosInf]
                  [''Same Day'', ''Short'', ''Medium'', ''Long'']
                  (fval (length_of_stay r)))))
       (claims df)"
  by (simp add: engineer_claims_features_def Let_def readmission_flag_present
      readmission_flag_absent zip_map_self o_def)

text \<open>What the cleaning step leaves in a claim row.\<close>

lemma clean_claims_dates:
  assumes "r \<in> set (claims (clean_claims_data df))"
  shows "to_datetime (discharge_date r) = discharge_date r"
    and "readmission_col df \<Longrightarrow> to_datetime (readmission_date r) = readmission_date r"
  using assms
  by (auto simp: clean_claims_data_def Let_def to_datetime_idem split: if_splits)

lemma clean_claims_cost:
  assumes "r \<in> set (claims (clean_claims_data df))"
  shows "\<exists>c. cost r = Num c \<and> 0 < c"
  using assms
  apply (auto simp: clean_claims_data_def Let_def split: if_splits)
  subgoal for x by (cases "cost x") auto
  subgoal for x by (cases "cost x") auto
  done

lemma clean_claims_los:
  assumes "r \<in> set (claims (clean_claims_data df))"
  shows "\<exists>l. length_of_stay r = Num l \<and> 0 \<le> l \<and> l \<le> 365"
  using assms
  apply (auto simp: clean_claims_data_def Let_def split: if_splits)
  subgoal for x by (cases "length_of_stay x") auto
  subgoal for x by (cases "length_of_stay x") auto
  done

lemma clean_readmission_col: "readmission_col (clean_claims_data df) = readmission_col df"
  by (simp add: clean_claims_data_def Let_def)

lemmas eval_claims = engineer_claims_features_def clean_claims_data_def
  calculate_readmission_flag_def cut_def searchsorted_left_def claim.extend_def
  claim_feat.fields_def ns_per_day_def Let_def

subsection \<open>The readmission flag\<close>

text \<open>
  Claim C1. For every row that the claims transform (cleaning, then feature engineering)
  produces, the readmission flag is 1 exactly when the frame has a readmission date, the
  row's readmission date and discharge date are timestamps, and the whole days from the
  discharge to the readmission are more than 0 and at most 30. In every other case, a
  null or absent readmission date among them, the flag is 0.
\<close>

theorem readmission_flag_iff:
  assumes "r \<in> set (claims (engineer_claims_features (clean_claims_data df)))"
  shows "(readmission_flag r = 1 \<longleftrightarrow>
           readmission_col df \<and>
           (\<exists>a b. readmission_date r = Stamp a \<and> discharge_date r = Stamp b
                  \<and> 0 < (a - b) div ns_per_day \<and> (a - b) div ns_per_day \<le> 30))
         \<and> (readmission_flag r \<noteq> 1 \<longrightarrow> readmission_flag r = 0)"
proof -
  from assms obtain r0 where r0: "r0 \<in> set (claims (clean_claims_data df))"
    and r: "r = claim.extend r0
            (claim_feat.fields
               (if readmission_col df \<and>
                   (case timedelta_days (to_datetime (readmission_date r0))
                           (to_datetime (discharge_date r0)) of
                      None \<Rightarrow> False | Some n \<Rightarrow> n \<le> 30 \<and> 0 < n) then 1 else 0)
               (fdiv (fval (cost r0)) (fadd (fval (length_of_stay r0)) (Fin 1)))
               (cut [Fin 0, Fin 1000, Fin 5000, Fin 15000, PosInf]
                  [''Low'', ''Medium'', ''High'', ''Very High''] (fval (cost r0)))
               (cut [Fin 0, Fin 1, Fin 3, Fin 7, PosInf]
                  [''Same Day'', ''Short'', ''Medium'', ''Long'']
                  (fval (length_of_stay r0))))"
    by (auto simp: engineer_claims_rows clean_readmission_col)
  have d: "to_datetime (discharge_date r0) = discharge_date r0"
    by (rule clean_claims_dates(1)[OF r0])
  have sel: "readmission_date r = readmission_date r0" "discharge_date r = discharge_date r0"
    by (simp_all add: r claim.extend_def claim_feat.fields_def)
  show ?thesis
  proof (cases "readmission_col df")
    case False
    then show ?thesis by (simp add: r claim.extend_def claim_feat.fields_def)
  next
    case True
    have m: "to_datetime (readmission_date r0) = readmission_date r0"
      by (rule clean_claims_dates(2)[OF r0 True])
    show ?thesis
      unfolding sel
      by (cases "readmission_date r0"; cases "discharge_date r0")
         (auto simp: r claim.extend_def claim_feat.fields_def True m d)
  qed
qed

text \<open>The scenario of the specification: discharged on 2024-01-05, readmitted on 2024-01-20.\<close>

theorem readmission_flag_iff_witness:
  "\<lparr>claim_id = 1, admission_date = Stamp 1704067200000000000,
     discharge_date = Stamp 1704412800000000000,
     readmission_date = Stamp 1705708800000000000,
     cost = Num 1200, length_of_stay = Num 4,
     readmission_flag = 1, cost_per_day = Fin 240,
     cost_category = Some ''Medium'', los_category = Some ''Medium''\<rparr>
   \<in> set (claims (engineer_claims_features (clean_claims_data
        \<lparr>readmission_col = True,
         claims = [\<lparr>claim_id = 1, admission_date = Stamp 1704067200000000000,
                    discharge_date = Stamp 1704412800000000000,
                    readmission_date = Stamp 1705708800000000000,
                    cost = Num 1200, length_of_stay = Num 4\<rparr>]\<rparr>)))
   \<and> (\<exists>a b. Stamp 1705708800000000000 = Stamp a \<and> Stamp 1704412800000000000 = Stamp b
            \<and> 0 < (a - b) div ns_per_day \<and> (a - b) div ns_per_day \<le> 30)"
proof -
  let ?r = "\<lparr>claim_id = 1, admission_date = Stamp 1704067200000000000,
     discharge_date = Stamp 1704412800000000000,
     readmission_date = Stamp 1705708800000000000,
     cost = Num 1200, length_of_stay = Num 4,
     readmission_flag = 1, cost_per_day = Fin 240,
     cost_category = Some ''Medium'', los_category = Some ''Medium''\<rparr>"
  let ?df = "\<lparr>readmission_col = True,
         claims = [\<lparr>claim_id = 1, admission_date = Stamp 1704067200000000000,
                    discharge_date = Stamp 1704412800000000000,
                    readmission_date = Stamp 1705708800000000000,
                    cost = Num 1200, length_of_stay = Num 4\<rparr>]\<rparr>"
  have mem: "?r \<in> set (claims (engineer_claims_features (clean_claims_data ?df)))"
    by (simp add: eval_claims)
  from readmission_flag_iff[OF mem] mem show ?thesis by simp
qed

subsection \<open>The constraints after cleaning\<close>

lemma drop_duplicates_length: "length (drop_duplicates key seen rs) \<le> length rs"
  by (induction rs arbitrary: seen) (auto simp: le_SucI)

lemma drop_duplicates_subset: "set (drop_duplicates key seen rs) \<subseteq> set rs"
  by (induction rs arbitrary: seen) auto

lemma drop_duplicates_lost:
  "r \<in> set rs \<Longrightarrow> r \<notin> set (drop_duplicates key seen rs)
     \<Longrightarrow> length (drop_duplicates key seen rs) < length rs"
proof (induction rs arbitrary: seen)
  case Nil
  then show ?case by simp
next
  case (Cons x xs)
  show ?case
  proof (cases "key x \<in> set seen")
    case True
    then show ?thesis
      using drop_duplicates_length[of key seen xs] by (simp add: less_Suc_eq_le)
  next
    case False
    with Cons.prems have "r \<in> set xs" "r \<notin> set (drop_duplicates key (key x # seen) xs)"
      by auto
    from Cons.IH[OF this] False show ?thesis by simp
  qed
qed

lemma fless_fval: "fless (Fin 0) (fval (to_numeric c)) \<longleftrightarrow> (\<exists>x. c = Num x \<and> 0 < x)"
  by (cases c) auto

lemma fle_fval:
  "fle (Fin lo) (fval (to_numeric c)) \<and> fle (fval (to_numeric c)) (Fin hi)
     \<longleftrightarrow> (\<exists>x. c = Num x \<and> lo \<le> x \<and> x \<le> hi)"
  by (cases c) auto

lemma clean_claims_length:
  "length (claims (clean_claims_data df)) =
     length (filter (\<lambda>r. (\<exists>c. cost r = Num c \<and> 0 < c)
                       \<and> (\<exists>l. length_of_stay r = Num l \<and> 0 \<le> l \<and> l \<le> 365))
              (drop_duplicates claim_id [] (claims df)))"
  by (simp add: clean_claims_data_def Let_def filter_map o_def fless_fval fle_fval)

lemma clean_claims_origin:
  assumes "r' \<in> set (claims (clean_claims_data df))"
  shows "\<exists>r \<in> set (claims df). claim_id r' = claim_id r \<and> cost r' = cost r
           \<and> length_of_stay r' = length_of_stay r"
proof -
  from assms obtain r where r: "r \<in> set (drop_duplicates claim_id [] (claims df))"
    and c: "cost r' = to_numeric (cost r)"
    and l: "length_of_stay r' = to_numeric (length_of_stay r)"
    and i: "claim_id r' = claim_id r"
    by (auto simp: clean_claims_data_def Let_def split: if_splits)
  from clean_claims_cost[OF assms] c have "cost r' = cost r" by (cases "cost r") auto
  moreover from clean_claims_los[OF assms] l have "length_of_stay r' = length_of_stay r"
    by (cases "length_of_stay r") auto
  moreover from r drop_duplicates_subset have "r \<in> set (claims df)" by fast
  ultimately show ?thesis using i by blast
qed

text \<open>
  Claim C4. Every row that the claims cleaning step keeps has a numeric cost above 0 and a
  numeric length of stay from 0 to 365, and it is a row of the input with that cost and
  that length of stay. A row whose cost or length of stay is null, is not a number or is
  out of range is therefore not kept, and an input that holds such a row comes out with
  strictly fewer rows.
\<close>

theorem clean_claims_constraints:
  "(\<forall>r' \<in> set (claims (clean_claims_data df)).
      (\<exists>c l. cost r' = Num c \<and> 0 < c \<and> length_of_stay r' = Num l \<and> 0 \<le> l \<and> l \<le> 365)
      \<and> (\<exists>r \<in> set (claims df). claim_id r' = claim_id r \<and> cost r' = cost r
            \<and> length_of_stay r' = length_of_stay r))
   \<and> ((\<exists>r \<in> set (claims df).
          \<not> (\<exists>c. cost r = Num c \<and> 0 < c)
          \<or> \<not> (\<exists>l. length_of_stay r = Num l \<and> 0 \<le> l \<and> l \<le> 365))
        \<longrightarrow> length (claims (clean_claims_data df)) < length (claims df))"
proof (intro conjI ballI impI)
  fix r' assume "r' \<in> set (claims (clean_claims_data df))"
  from clean_claims_cost[OF this] clean_claims_los[OF this]
  show "\<exists>c l. cost r' = Num c \<and> 0 < c \<and> length_of_stay r' = Num l \<and> 0 \<le> l \<and> l \<le> 365"
    by blast
next
  fix r' assume "r' \<in> set (claims (clean_claims_data df))"
  then show "\<exists>r \<in> set (claims df). claim_id r' = claim_id r \<and> cost r' = cost r
            \<and> length_of_stay r' = length_of_stay r"
    by (rule clean_claims_origin)
next
  let ?ok = "\<lambda>r. (\<exists>c. cost r = Num c \<and> 0 < c)
                \<and> (\<exists>l. length_of_stay r = Num l \<and> 0 \<le> l \<and> l \<le> 365)"
  let ?dd = "drop_duplicates claim_id [] (claims df)"
  assume "\<exists>r \<in> set (claims df).
          \<not> (\<exists>c. cost r = Num c \<and> 0 < c)
          \<or> \<not> (\<exists>l. length_of_stay r = Num l \<and> 0 \<le> l \<and> l \<le> 365)"
  then obtain r where r: "r \<in> set (claims df)" and bad: "\<not> ?ok r" by blast
  have len: "length (claims (clean_claims_data df)) = length (filter ?ok ?dd)"
    by (rule clean_claims_length)
  show "length (claims (clean_claims_data df)) < length (claims df)"
  proof (cases "r \<in> set ?dd")
    case True
    with bad have "length (filter ?ok ?dd) < length ?dd"
      by (intro length_filter_less[of r]) 
    also have "\<dots> \<le> length (claims df)" by (rule drop_duplicates_length)
    finally show ?thesis using len by simp
  next
    case False
    have "length (filter ?ok ?dd) \<le> length ?dd" by (rule length_filter_le)
    also from r False have "\<dots> < length (claims df)" by (rule drop_duplicates_lost)
    finally show ?thesis using len by simp
  qed
qed

text \<open>The scenario of the specification: a claim with cost -50 is absent from the output.\<close>

theorem clean_claims_constraints_witness:
  "(\<exists>r \<in> set [\<lparr>claim_id = 1, admission_date = NaT, discharge_date = NaT,
        readmission_date = NaT, cost = Num (-50), length_of_stay = Num 2\<rparr>,
      \<lparr>claim_id = 2, admission_date = NaT, discharge_date = NaT,
        readmission_date = NaT, cost = Num 80, length_of_stay = Num 2\<rparr>].
          \<not> (\<exists>c. cost r = Num c \<and> 0 < c)
          \<or> \<not> (\<exists>l. length_of_stay r = Num l \<and> 0 \<le> l \<and> l \<le> 365))
   \<and> claims (clean_claims_data \<lparr>readmission_col = True, claims =
     [\<lparr>claim_id = 1, admission_date = NaT, discharge_date = NaT,
        readmission_date = NaT, cost = Num (-50), length_of_stay = Num 2\<rparr>,
      \<lparr>claim_id = 2, admission_date = NaT, discharge_date = NaT,
        readmission_date = NaT, cost = Num 80, length_of_stay = Num 2\<rparr>]\<rparr>)
     = [\<lparr>claim_id = 2, admission_date = NaT, discharge_date = NaT,
        readmission_date = NaT, cost = Num 80, length_of_stay = Num 2\<rparr>]
   \<and> length (claims (clean_claims_data \<lparr>readmission_col = True, claims =
     [\<lparr>claim_id = 1, admission_date = NaT, discharge_date = NaT,
        readmission_date = NaT, cost = Num (-50), length_of_stay = Num 2\<rparr>,
      \<lparr>claim_id = 2, admission_date = NaT, discharge_date = NaT,
        readmission_date = NaT, cost = Num 80, length_of_stay = Num 2\<rparr>]\<rparr>)) < 2"
proof -
  let ?df = "\<lparr>readmission_col = True, claims =
     [\<lparr>claim_id = 1, admission_date = NaT, discharge_date = NaT,
        readmission_date = NaT, cost = Num (-50), length_of_stay = Num 2\<rparr>,
      \<lparr>claim_id = 2, admission_date = NaT, discharge_date = NaT,
        readmission_date = NaT, cost = Num 80, length_of_stay = Num 2\<rparr>]\<rparr>"
  have bad: "\<exists>r \<in> set (claims ?df).
          \<not> (\<exists>c. cost r = Num c \<and> 0 < c)
          \<or> \<not> (\<exists>l. length_of_stay r = Num l \<and> 0 \<le> l \<and> l \<le> 365)"
    by simp
  have ev: "claims (clean_claims_data ?df) = [\<lparr>claim_id = 2, admission_date = NaT, discharge_date = NaT,
        readmission_date = NaT, cost = Num 80, length_of_stay = Num 2\<rparr>]"
    by (simp add: clean_claims_data_def Let_def)
  from clean_claims_constraints[of ?df] bad
  have "length (claims (clean_claims_data ?df)) < length (claims ?df)" by blast
  with bad ev show ?thesis by simp
qed

subsection \<open>The derived columns of a transformed claim\<close>

lemma engineered_claim_fields:
  assumes "r \<in> set (claims (engineer_claims_features df))"
  shows "cost_per_day r = fdiv (fval (cost r)) (fadd (fval (length_of_stay r)) (Fin 1))"
    and "los_category r = cut [Fin 0, Fin 1, Fin 3, Fin 7, PosInf]
                  [''Same Day'', ''Short'', ''Medium'', ''Long'']
                  (fval (length_of_stay r))"
    and "\<exists>r0 \<in> set (claims df). cost r = cost r0 \<and> length_of_stay r = length_of_stay r0
           \<and> claim_id r = claim_id r0"
  using assms by (auto simp: engineer_claims_rows claim.extend_def claim_feat.fields_def)

lemma transformed_claim_values:
  assumes "r \<in> set (claims (engineer_claims_features (clean_claims_data df)))"
  shows "\<exists>c l. cost r = Num c \<and> 0 < c \<and> length_of_stay r = Num l \<and> 0 \<le> l \<and> l \<le> 365"
proof -
  from engineered_claim_fields(3)[OF assms] obtain r0
    where r0: "r0 \<in> set (claims (clean_claims_data df))"
      and eq: "cost r = cost r0" "length_of_stay r = length_of_stay r0" by blast
  from clean_claims_cost[OF r0] clean_claims_los[OF r0] eq show ?thesis by auto
qed

subsection \<open>Cost per day\<close>



subsection \<open>The length-of-stay category\<close>

text \<open>
  The category of a length of stay in the range the cleaning step admits. The first edge
  of the bins is 0 and the first interval is open on the left, so 0 itself gets no label.
\<close>

lemma cut_los:
  "0 \<le> l \<Longrightarrow>
   cut [Fin 0, Fin 1, Fin 3, Fin 7, PosInf] [''Same Day'', ''Short'', ''Medium'', ''Long'']
     (Fin l) =
     (if l = 0 then None
      else if l \<le> 1 then Some ''Same Day''
      else if l \<le> 3 then Some ''Short''
      else if l \<le> 7 then Some ''Medium''
      else Some ''Long'')"
  by (simp add: cut_def searchsorted_left_def)

lemma los_category_buckets:
  assumes "r \<in> set (claims (engineer_claims_features (clean_claims_data df)))"
  shows "\<exists>l. length_of_stay r = Num l \<and> 0 \<le> l \<and> l \<le> 365 \<and>
           los_category r =
             (if l = 0 then None
              else if l \<le> 1 then Some ''Same Day''
              else if l \<le> 3 then Some ''Short''
              else if l \<le> 7 then Some ''Medium''
              else Some ''Long'')"
proof -
  from transformed_claim_values[OF assms] obtain l
    where v: "length_of_stay r = Num l" "0 \<le> l" "l \<le> 365" by blast
  then show ?thesis
    by (simp add: engineered_claim_fields(2)[OF assms] cut_los)
qed

text \<open>
  Claim C7 says that every cleaned row gets exactly one category and that a length of
  stay of 0 is \<open>Same Day\<close>. The code gives a cleaned row with length of stay 0 no
  category at all: the row passes the cleaning step and its \<open>los_category\<close> is null.
\<close>

theorem los_category_zero_unlabelled:
  "map (\<lambda>r. (length_of_stay r, los_category r))
     (claims (engineer_claims_features (clean_claims_data
        \<lparr>readmission_col = True,
         claims = [\<lparr>claim_id = 1, admission_date = Stamp 1704067200000000000,
                    discharge_date = Stamp 1704067200000000000,
                    readmission_date = NaT,
                    cost = Num 1200, length_of_stay = Num 0\<rparr>]\<rparr>)))
   = [(Num 0, None)]"
  by (simp add: eval_claims)

section \<open>Properties of the patients transform\<close>

text \<open>
  The category of an age in the range the cleaning step admits. The first edge of the
  bins is 0 with the first interval open on the left, and the last edge is 100, so age 0
  and the ages above 100 get no label.
\<close>

lemma cut_age:
  "0 \<le> a \<Longrightarrow>
   cut [Fin 0, Fin 18, Fin 35, Fin 50, Fin 65, Fin 100]
     [''Pediatric'', ''Young Adult'', ''Adult'', ''Middle Age'', ''Senior''] (Fin a) =
     (if a = 0 then None
      else if a \<le> 18 then Some ''Pediatric''
      else if a \<le> 35 then Some ''Young Adult''
      else if a \<le> 50 then Some ''Adult''
      else if a \<le> 65 then Some ''Middle Age''
      else if a \<le> 100 then Some ''Senior''
      else None)"
  by (simp add: cut_def searchsorted_left_def)

lemma clean_patients_age:
  assumes "r \<in> set (clean_patients_data df)"
  shows "\<exists>a. age r = Num a \<and> 0 \<le> a \<and> a \<le> 120"
  using assms
  apply (auto simp: clean_patients_data_def Let_def)
  subgoal for x by (cases "age x") auto
  done

lemma age_category_buckets:
  assumes "r \<in> set (engineer_patients_features (clean_patients_data df))"
  shows "\<exists>a. age r = Num a \<and> 0 \<le> a \<and> a \<le> 120 \<and>
           age_category r =
             (if a = 0 then None
              else if a \<le> 18 then Some ''Pediatric''
              else if a \<le> 35 then Some ''Young Adult''
              else if a \<le> 50 then Some ''Adult''
              else if a \<le> 65 then Some ''Middle Age''
              else if a \<le> 100 then Some ''Senior''
              else None)"
proof -
  from assms obtain r0 where r0: "r0 \<in> set (clean_patients_data df)"
    and r: "age r = age r0"
       "age_category r = cut [Fin 0, Fin 18, Fin 35, Fin 50, Fin 65, Fin 100]
          [''Pediatric'', ''Young Adult'', ''Adult'', ''Middle Age'', ''Senior'']
          (fval (age r0))"
    by (auto simp: engineer_patients_features_def patient.extend_def patient_feat.fields_def)
  from clean_patients_age[OF r0] obtain a where a: "age r0 = Num a" "0 \<le> a" "a \<le> 120"
    by blast
  then show ?thesis by (simp add: r cut_age)
qed

text \<open>
  Claim C2 says that every patient row with an age in [0, 120] gets exactly one age
  category. The code keeps the rows with age 0 and with age 110 in the cleaning step and
  gives them no category: their \<open>age_category\<close> is null. A row with age 40 is
  \<open>Adult\<close>.
\<close>

theorem age_category_unlabelled_ages:
  "map (\<lambda>r. (age r, age_category r))
     (engineer_patients_features (clean_patients_data
        [\<lparr>patient_id = 1, age = Num 0\<rparr>, \<lparr>patient_id = 2, age = Num 110\<rparr>,
         \<lparr>patient_id = 3, age = Num 40\<rparr>]))
   = [(Num 0, None), (Num 110, None), (Num 40, Some ''Adult'')]"
  by (simp add: engineer_patients_features_def clean_patients_data_def Let_def cut_def
      searchsorted_left_def patient.extend_def patient_feat.fields_def)

section \<open>Properties of the prescriptions transform\<close>








section \<open>Properties of \<open>transform_all_data\<close>\<close>











section \<open>Properties of the loader\<close>

subsection \<open>\<open>load_all_data\<close>\<close>




subsection \<open>Medication ids\<close>

text \<open>The dictionary built from the medications table is the table read from its end.\<close>

lemma fold_medication_map:
  "fold (\<lambda>row m. m(snd row \<mapsto> fst row)) result m
     = m ++ map_of (map (\<lambda>row. (snd row, fst row)) (rev result))"
proof (induction result arbitrary: m)
  case Nil
  show ?case by simp
next
  case (Cons x xs)
  have "fold (\<lambda>row m. m(snd row \<mapsto> fst row)) (x # xs) m
      = fold (\<lambda>row m. m(snd row \<mapsto> fst row)) xs (m(snd x \<mapsto> fst x))"
    by simp
  also have "\<dots> = m(snd x \<mapsto> fst x) ++ map_of (map (\<lambda>row. (snd row, fst row)) (rev xs))"
    by (rule Cons.IH)
  also have "\<dots> = m ++ map_of (map (\<lambda>row. (snd row, fst row)) (rev (x # xs)))"
    by (auto simp: map_add_def fun_eq_iff split: option.splits)
  finally show ?case .
qed

lemma medication_map_of_table:
  "medication_map_of result = map_of (map (\<lambda>row. (snd row, fst row)) (rev result))"
  by (simp add: medication_map_of_def fold_medication_map)

lemma medication_map_of_None:
  "medication_map_of result n = None \<longleftrightarrow> n \<notin> snd ` set result"
  by (simp add: medication_map_of_table map_of_eq_None_iff image_image)

lemma medication_map_of_Some:
  "medication_map_of result n = Some k \<Longrightarrow> (k, n) \<in> set result"
  by (auto simp: medication_map_of_table dest!: map_of_SomeD)

lemma unique_aux:
  "set (drop_duplicates (\<lambda>x. x) seen xs) = set xs - set seen
   \<and> distinct (drop_duplicates (\<lambda>x. x) seen xs)"
  by (induction xs arbitrary: seen) auto

lemma unique_set: "set (unique xs) = set xs" and unique_distinct: "distinct (unique xs)"
  using unique_aux[of "[]" xs] by (simp_all add: unique_def)

lemma unique_Nil_iff: "unique xs = [] \<longleftrightarrow> xs = []"
  using unique_set[of xs] by (metis set_empty)

lemma add_medication_ids_rows:
  "fst (add_medication_ids (Inr result) df logged) =
     map (\<lambda>r. prescription_feat.extend r
            (prescription_db.fields
               (case map_name (medication_map_of result) (medication_name r) of
                  None \<Rightarrow> Some 0 | Some k \<Rightarrow> Some k))) df"
proof -
  let ?f = "\<lambda>r. map_name (medication_map_of result) (medication_name r)"
  let ?unmapped = "unique (map medication_name (filter (\<lambda>r. ?f r = None) df))"
  have u: "unique (map (\<lambda>(r, i). medication_name r)
             (filter (\<lambda>(r, i). i = None) (zip df (map ?f df)))) = ?unmapped"
    by (simp add: zip_map_self filter_map o_def)
  show ?thesis
  proof (cases "?unmapped = []")
    case False
    then show ?thesis
      by (simp add: add_medication_ids_def Let_def u) (simp add: zip_map_self o_def)
  next
    case True
    then have "filter (\<lambda>r. ?f r = None) df = []"
      by (simp add: unique_Nil_iff)
    then have all: "\<forall>r \<in> set df. ?f r \<noteq> None"
      by (simp add: filter_empty_conv)
    have "map (\<lambda>r. prescription_feat.extend r (prescription_db.fields (?f r))) df
        = map (\<lambda>r. prescription_feat.extend r
            (prescription_db.fields (case ?f r of None \<Rightarrow> Some 0 | Some k \<Rightarrow> Some k))) df"
      using all by (intro map_cong) auto
    with True show ?thesis
      by (simp add: add_medication_ids_def Let_def u) (simp add: zip_map_self o_def)
  qed
qed

lemma add_medication_ids_log:
  "snd (add_medication_ids (Inr result) df logged) =
     (let unmapped = unique (map medication_name
        (filter (\<lambda>r. map_name (medication_map_of result) (medication_name r) = None) df))
      in if unmapped = [] then logged
         else logged @ [Warning_unmapped (length unmapped) unmapped])"
proof -
  let ?f = "\<lambda>r. map_name (medication_map_of result) (medication_name r)"
  have u: "unique (map (\<lambda>(r, i). medication_name r)
             (filter (\<lambda>(r, i). i = None) (zip df (map ?f df))))
         = unique (map medication_name (filter (\<lambda>r. ?f r = None) df))"
    by (simp add: zip_map_self filter_map o_def)
  show ?thesis
    by (simp add: add_medication_ids_def Let_def u)
qed

lemma map_name_None:
  "map_name (medication_map_of result) name = None \<longleftrightarrow>
     (case name of None \<Rightarrow> True | Some n \<Rightarrow> n \<notin> snd ` set result)"
  by (cases name) (simp_all add: map_name_def medication_map_of_None)

lemma truncate_extend:
  "prescription_feat.truncate (prescription_feat.extend r (prescription_db.fields i)) = r"
  by (cases r) (simp add: prescription_feat.truncate_def prescription_feat.extend_def
      prescription_db.fields_def prescription.defs prescription_feat.defs)

text \<open>
  Claim C8. \<open>_add_medication_ids\<close> keeps every row as it is and adds the column
  \<open>medication_id\<close>. When the medications table has been read, a row whose name is in
  the table gets an id the table gives that name (the one of the last such row of the
  table), and a row whose name is null or not in the table gets the id 0; if there are
  such rows, one warning with their distinct names is appended to the log, and otherwise
  the log is unchanged. When reading the table fails, every row gets the id 0 and the
  error is logged.
\<close>

theorem add_medication_ids_resolves:
  "map prescription_feat.truncate (fst (add_medication_ids query df logged)) = df
   \<and> (\<forall>result. query = Inr result \<longrightarrow>
        (\<forall>r' \<in> set (fst (add_medication_ids query df logged)).
           (case medication_name r' of
              None \<Rightarrow> medication_id r' = Some 0
            | Some n \<Rightarrow>
                if n \<in> snd ` set result
                then \<exists>k. (k, n) \<in> set result \<and> medication_map_of result n = Some k
                         \<and> medication_id r' = Some k
                else medication_id r' = Some 0))
        \<and> (let unmatched = filter (\<lambda>r. case medication_name r of
                                None \<Rightarrow> True | Some n \<Rightarrow> n \<notin> snd ` set result) df
           in if unmatched = [] then snd (add_medication_ids query df logged) = logged
              else \<exists>names. snd (add_medication_ids query df logged)
                              = logged @ [Warning_unmapped (length names) names]
                        \<and> distinct names \<and> set names = medication_name ` set unmatched))
   \<and> (\<forall>e. query = Inl e \<longrightarrow>
        (\<forall>r' \<in> set (fst (add_medication_ids query df logged)). medication_id r' = Some 0)
        \<and> snd (add_medication_ids query df logged) = logged @ [Error_medication_ids e])"
proof (intro conjI allI impI)
  show "map prescription_feat.truncate (fst (add_medication_ids query df logged)) = df"
  proof (cases query)
    case (Inr result)
    show ?thesis
      unfolding Inr add_medication_ids_rows
      by (simp add: o_def truncate_extend)
  next
    case (Inl e)
    then show ?thesis
      by (simp add: add_medication_ids_def o_def truncate_extend)
  qed
next
  fix result assume q: "query = Inr result"
  show "\<forall>r' \<in> set (fst (add_medication_ids query df logged)).
           (case medication_name r' of
              None \<Rightarrow> medication_id r' = Some 0
            | Some n \<Rightarrow>
                if n \<in> snd ` set result
                then \<exists>k. (k, n) \<in> set result \<and> medication_map_of result n = Some k
                         \<and> medication_id r' = Some k
                else medication_id r' = Some 0)"
  proof
    fix r' assume "r' \<in> set (fst (add_medication_ids query df logged))"
    then obtain r where r: "r \<in> set df"
      and r': "r' = prescription_feat.extend r
            (prescription_db.fields
               (case map_name (medication_map_of result) (medication_name r) of
                  None \<Rightarrow> Some 0 | Some k \<Rightarrow> Some k))"
      unfolding q add_medication_ids_rows by auto
    have name: "medication_name r' = medication_name r"
      and mid: "medication_id r' =
         (case map_name (medication_map_of result) (medication_name r) of
                  None \<Rightarrow> Some 0 | Some k \<Rightarrow> Some k)"
      by (simp_all add: r' prescription_feat.extend_def prescription_db.fields_def)
    show "case medication_name r' of
              None \<Rightarrow> medication_id r' = Some 0
            | Some n \<Rightarrow>
                if n \<in> snd ` set result
                then \<exists>k. (k, n) \<in> set result \<and> medication_map_of result n = Some k
                         \<and> medication_id r' = Some k
                else medication_id r' = Some 0"
    proof (cases "medication_name r")
      case None
      then show ?thesis by (simp add: name mid map_name_def)
    next
      case (Some n)
      show ?thesis
      proof (cases "medication_map_of result n")
        case None
        then have "n \<notin> snd ` set result" by (simp add: medication_map_of_None)
        with None Some show ?thesis by (simp add: name mid map_name_def)
      next
        case (Some k)
        then have "(k, n) \<in> set result" by (rule medication_map_of_Some)
        moreover then have "n \<in> snd ` set result" by force
        ultimately show ?thesis
          using Some \<open>medication_name r = Some n\<close> by (simp add: name mid map_name_def)
      qed
    qed
  qed
next
  fix result assume q: "query = Inr result"
  let ?un = "filter (\<lambda>r. case medication_name r of
                                None \<Rightarrow> True | Some n \<Rightarrow> n \<notin> snd ` set result) df"
  let ?names = "unique (map medication_name ?un)"
  have lg: "snd (add_medication_ids query df logged) =
      (if ?names = [] then logged else logged @ [Warning_unmapped (length ?names) ?names])"
    unfolding q add_medication_ids_log by (simp add: Let_def map_name_None)
  show "let unmatched = ?un
        in if unmatched = [] then snd (add_medication_ids query df logged) = logged
           else \<exists>names. snd (add_medication_ids query df logged)
                              = logged @ [Warning_unmapped (length names) names]
                        \<and> distinct names \<and> set names = medication_name ` set unmatched"
  proof (cases "?un = []")
    case True
    then show ?thesis by (simp add: lg Let_def unique_def)
  next
    case False
    then have ne: "?names \<noteq> []" by (simp add: unique_Nil_iff)
    have "snd (add_medication_ids query df logged)
            = logged @ [Warning_unmapped (length ?names) ?names]
          \<and> distinct ?names \<and> set ?names = medication_name ` set ?un"
      using ne by (simp add: lg unique_distinct unique_set)
    then have "\<exists>names. snd (add_medication_ids query df logged)
                              = logged @ [Warning_unmapped (length names) names]
                        \<and> distinct names \<and> set names = medication_name ` set ?un"
      by blast
    with False show ?thesis by (simp add: Let_def)
  qed
next
  fix e assume "query = Inl e"
  then show "\<forall>r' \<in> set (fst (add_medication_ids query df logged)). medication_id r' = Some 0"
    by (auto simp: add_medication_ids_def prescription_feat.extend_def
        prescription_db.fields_def)
next
  fix e assume "query = Inl e"
  then show "snd (add_medication_ids query df logged) = logged @ [Error_medication_ids e]"
    by (simp add: add_medication_ids_def)
qed

lemmas eval_medication_ids = add_medication_ids_def medication_map_of_def map_name_def
  unique_def prescription_feat.extend_def prescription_db.fields_def Let_def

text \<open>A table of two medications and a frame with one name of the table and one new name.\<close>

theorem add_medication_ids_resolves_witness:
  "(let df = [\<lparr>prescription_id = 1, medication_name = Some ''Metformin'',
                days_supplied = Num 30, days_prescribed = Num 30, quantity = Num 60,
                rx_cost = Num 45, adherence_rate = Fin 1,
                adherence_category = Some ''Good'', rx_cost_per_day = Fin (3 / 2),
                medication_category = ''Diabetes''\<rparr>,
              \<lparr>prescription_id = 2, medication_name = Some ''Newdrug'',
                days_supplied = Num 30, days_prescribed = Num 30, quantity = Num 60,
                rx_cost = Num 45, adherence_rate = Fin 1,
                adherence_category = Some ''Good'', rx_cost_per_day = Fin (3 / 2),
                medication_category = ''Other''\<rparr>];
        query = Inr [(1, ''Metformin''), (2, ''Lisinopril'')]
    in map medication_id (fst (add_medication_ids query df [])) = [Some 1, Some 0]
       \<and> snd (add_medication_ids query df []) = [Warning_unmapped 1 [Some ''Newdrug'']]
       \<and> map prescription_feat.truncate (fst (add_medication_ids query df [])) = df
       \<and> snd (add_medication_ids (Inl SQLAlchemyError) df [])
           = [Error_medication_ids SQLAlchemyError])"
proof -
  let ?df = "[\<lparr>prescription_id = 1, medication_name = Some ''Metformin'',
                days_supplied = Num 30, days_prescribed = Num 30, quantity = Num 60,
                rx_cost = Num 45, adherence_rate = Fin 1,
                adherence_category = Some ''Good'', rx_cost_per_day = Fin (3 / 2),
                medication_category = ''Diabetes''\<rparr>,
              \<lparr>prescription_id = 2, medication_name = Some ''Newdrug'',
                days_supplied = Num 30, days_prescribed = Num 30, quantity = Num 60,
                rx_cost = Num 45, adherence_rate = Fin 1,
                adherence_category = Some ''Good'', rx_cost_per_day = Fin (3 / 2),
                medication_category = ''Other''\<rparr>]"
  let ?q = "Inr [(1, ''Metformin''), (2, ''Lisinopril'')] :: exn + (int \<times> string) list"
  have ids: "map medication_id (fst (add_medication_ids ?q ?df [])) = [Some 1, Some 0]"
    by (simp add: eval_medication_ids)
  have lg: "snd (add_medication_ids ?q ?df []) = [Warning_unmapped 1 [Some ''Newdrug'']]"
    by (simp add: eval_medication_ids)
  have kept: "map prescription_feat.truncate (fst (add_medication_ids ?q ?df [])) = ?df"
    using add_medication_ids_resolves[of ?q ?df "[]"] by blast
  have err: "snd (add_medication_ids (Inl SQLAlchemyError) ?df [])
           = [Error_medication_ids SQLAlchemyError]"
    using add_medication_ids_resolves[of "Inl SQLAlchemyError" ?df "[]"] by simp
  show ?thesis unfolding Let_def using ids lg kept err by blast
qed

section \<open>Properties of the extractor\<close>

text \<open>
  A generator installs the seed 42 before its first draw, so the state of the random
  generator it is called in has no part in what it returns.
\<close>

lemma generate_sample_claims_data_seeded:
  "generate_sample_claims_data np g = generate_sample_claims_data np g'"
  unfolding generate_sample_claims_data_def by (rule refl)

lemma generate_sample_patients_data_seeded:
  "generate_sample_patients_data np g = generate_sample_patients_data np g'"
  unfolding generate_sample_patients_data_def by (rule refl)

lemma generate_sample_providers_data_seeded:
  "generate_sample_providers_data np g = generate_sample_providers_data np g'"
  unfolding generate_sample_providers_data_def by (rule refl)

lemma generate_sample_prescriptions_data_seeded:
  "generate_sample_prescriptions_data np g = generate_sample_prescriptions_data np g'"
  unfolding generate_sample_prescriptions_data_def by (rule refl)

lemma save_bronze_result: "fst (save_bronze name file_path df w) = Inr df"
  by (simp add: save_bronze_def now_def Let_def)

lemma read_source_None:
  "read_source w file_path = None \<longleftrightarrow>
     (case file_path of None \<Rightarrow> True | Some p \<Rightarrow> p = [] \<or> files w p = None)"
  by (simp add: read_source_def split: option.splits)

lemma read_source_Some:
  "file_path = Some p \<Longrightarrow> p \<noteq> [] \<Longrightarrow> read_source w file_path = files w p"
  by (simp add: read_source_def)

lemma extract_claims_data_cases:
  "fst (extract_claims_data np file_path w) =
     (case read_source w file_path of
        Some (Inl e) \<Rightarrow> Inl e
      | Some (Inr df) \<Rightarrow> Inr df
      | None \<Rightarrow> Inr (fst (generate_sample_claims_data np g)))"
  using generate_sample_claims_data_seeded[of np "rng w" g]
  by (simp add: extract_claims_data_def save_bronze_result
      split: option.splits sum.splits prod.splits)

lemma extract_patients_data_cases:
  "fst (extract_patients_data np file_path w) =
     (case read_source w file_path of
        Some (Inl e) \<Rightarrow> Inl e
      | Some (Inr df) \<Rightarrow> Inr df
      | None \<Rightarrow> Inr (fst (generate_sample_patients_data np g)))"
  using generate_sample_patients_data_seeded[of np "rng w" g]
  by (simp add: extract_patients_data_def save_bronze_result
      split: option.splits sum.splits prod.splits)

lemma extract_providers_data_cases:
  "fst (extract_providers_data np file_path w) =
     (case read_source w file_path of
        Some (Inl e) \<Rightarrow> Inl e
      | Some (Inr df) \<Rightarrow> Inr df
      | None \<Rightarrow> Inr (fst (generate_sample_providers_data np g)))"
  using generate_sample_providers_data_seeded[of np "rng w" g]
  by (simp add: extract_providers_data_def save_bronze_result
      split: option.splits sum.splits prod.splits)

lemma extract_prescriptions_data_cases:
  "fst (extract_prescriptions_data np file_path w) =
     (case read_source w file_path of
        Some (Inl e) \<Rightarrow> Inl e
      | Some (Inr df) \<Rightarrow> Inr df
      | None \<Rightarrow> Inr (fst (generate_sample_prescriptions_data np g)))"
  using generate_sample_prescriptions_data_seeded[of np "rng w" g]
  by (simp add: extract_prescriptions_data_def save_bronze_result
      split: option.splits sum.splits prod.splits)

text \<open>
  Claim C9. For each of the four entities: when a non-empty path is given and a file is
  there that \<open>read_csv\<close> parses, the extraction returns the rows of the file. When no
  path is given, or the path is empty or names no file, it returns the dataset of the
  entity's generator, which is the same for every state of the random generator, so two
  extractions without a source file, in whatever worlds, return identical datasets; and
  two runs of a generator return the same dataset and leave the same generator state.
\<close>

theorem extract_source_or_seeded_sample:
  "(\<forall>p df. file_path = Some p \<and> p \<noteq> [] \<and> files w p = Some (Inr df) \<longrightarrow>
       fst (extract_claims_data np file_path w) = Inr df
       \<and> fst (extract_patients_data np file_path w) = Inr df
       \<and> fst (extract_providers_data np file_path w) = Inr df
       \<and> fst (extract_prescriptions_data np file_path w) = Inr df)
   \<and> ((case file_path of None \<Rightarrow> True | Some p \<Rightarrow> p = [] \<or> files w p = None)
        \<and> (case file_path' of None \<Rightarrow> True | Some p \<Rightarrow> p = [] \<or> files w' p = None) \<longrightarrow>
       fst (extract_claims_data np file_path w)
         = Inr (fst (generate_sample_claims_data np g))
       \<and> fst (extract_claims_data np file_path' w') = fst (extract_claims_data np file_path w)
       \<and> fst (extract_patients_data np file_path w)
         = Inr (fst (generate_sample_patients_data np g))
       \<and> fst (extract_patients_data np file_path' w')
         = fst (extract_patients_data np file_path w)
       \<and> fst (extract_providers_data np file_path w)
         = Inr (fst (generate_sample_providers_data np g))
       \<and> fst (extract_providers_data np file_path' w')
         = fst (extract_providers_data np file_path w)
       \<and> fst (extract_prescriptions_data np file_path w)
         = Inr (fst (generate_sample_prescriptions_data np g))
       \<and> fst (extract_prescriptions_data np file_path' w')
         = fst (extract_prescriptions_data np file_path w))
   \<and> generate_sample_claims_data np g = generate_sample_claims_data np g'
   \<and> generate_sample_patients_data np g = generate_sample_patients_data np g'
   \<and> generate_sample_providers_data np g = generate_sample_providers_data np g'
   \<and> generate_sample_prescriptions_data np g = generate_sample_prescriptions_data np g'"
proof (intro conjI allI impI)
  fix p df
  assume a: "file_path = Some p \<and> p \<noteq> [] \<and> files w p = Some (Inr df)"
  then have src: "read_source w file_path = Some (Inr df)"
    by (simp add: read_source_def)
  show "fst (extract_claims_data np file_path w) = Inr df"
    by (simp add: extract_claims_data_cases[of np file_path w g] src)
  show "fst (extract_patients_data np file_path w) = Inr df"
    by (simp add: extract_patients_data_cases[of np file_path w g] src)
  show "fst (extract_providers_data np file_path w) = Inr df"
    by (simp add: extract_providers_data_cases[of np file_path w g] src)
  show "fst (extract_prescriptions_data np file_path w) = Inr df"
    by (simp add: extract_prescriptions_data_cases[of np file_path w g] src)
next
  assume a: "(case file_path of None \<Rightarrow> True | Some p \<Rightarrow> p = [] \<or> files w p = None)
        \<and> (case file_path' of None \<Rightarrow> True | Some p \<Rightarrow> p = [] \<or> files w' p = None)"
  then have n: "read_source w file_path = None" and n': "read_source w' file_path' = None"
    by (simp_all add: read_source_None)
  show "fst (extract_claims_data np file_path w)
         = Inr (fst (generate_sample_claims_data np g))"
    by (simp add: extract_claims_data_cases[of np file_path w g] n)
  show "fst (extract_claims_data np file_path' w') = fst (extract_claims_data np file_path w)"
    by (simp add: extract_claims_data_cases[of np file_path w g]
        extract_claims_data_cases[of np file_path' w' g] n n')
  show "fst (extract_patients_data np file_path w)
         = Inr (fst (generate_sample_patients_data np g))"
    by (simp add: extract_patients_data_cases[of np file_path w g] n)
  show "fst (extract_patients_data np file_path' w')
         = fst (extract_patients_data np file_path w)"
    by (simp add: extract_patients_data_cases[of np file_path w g]
        extract_patients_data_cases[of np file_path' w' g] n n')
  show "fst (extract_providers_data np file_path w)
         = Inr (fst (generate_sample_providers_data np g))"
    by (simp add: extract_providers_data_cases[of np file_path w g] n)
  show "fst (extract_providers_data np file_path' w')
         = fst (extract_providers_data np file_path w)"
    by (simp add: extract_providers_data_cases[of np file_path w g]
        extract_providers_data_cases[of np file_path' w' g] n n')
  show "fst (extract_prescriptions_data np file_path w)
         = Inr (fst (generate_sample_prescriptions_data np g))"
    by (simp add: extract_prescriptions_data_cases[of np file_path w g] n)
  show "fst (extract_prescriptions_data np file_path' w')
         = fst (extract_prescriptions_data np file_path w)"
    by (simp add: extract_prescriptions_data_cases[of np file_path w g]
        extract_prescriptions_data_cases[of np file_path' w' g] n n')
next
  show "generate_sample_claims_data np g = generate_sample_claims_data np g'"
    by (rule generate_sample_claims_data_seeded)
  show "generate_sample_patients_data np g = generate_sample_patients_data np g'"
    by (rule generate_sample_patients_data_seeded)
  show "generate_sample_providers_data np g = generate_sample_providers_data np g'"
    by (rule generate_sample_providers_data_seeded)
  show "generate_sample_prescriptions_data np g = generate_sample_prescriptions_data np g'"
    by (rule generate_sample_prescriptions_data_seeded)
qed

text \<open>
  A world with one source file, and stand-ins for the library functions: a path of the
  file, a path of no file, and two extractions without a path, one after the other.
\<close>

theorem extract_source_or_seeded_sample_witness:
  "(let np = \<lparr>seed = (\<lambda>n. n), randint = (\<lambda>lo hi n g. (replicate n lo, Suc g)),
               randint1 = (\<lambda>lo hi g. (lo, Suc g)),
               choice_str = (\<lambda>xs n g. (replicate n (hd xs), Suc g)),
               choice_int = (\<lambda>xs n g. (replicate n (hd xs), Suc g)),
               choice_bool = (\<lambda>xs n g. (replicate n (hd xs), Suc g)),
               choice_norepl = (\<lambda>k n g. ([0..<n], Suc g)),
               exponential = (\<lambda>scale n g. (replicate n scale, Suc g)),
               poisson = (\<lambda>lam n g. (replicate n 3, Suc g)),
               date_range = (\<lambda>a b n. replicate n 0)\<rparr>;
        w = \<lparr>files = [''claims.csv'' \<mapsto> Inr [(''claim_id'', Ints [1, 2])]],
              bronze_store = Map.empty, rng = (5::nat),
              clock = (\<lambda>n. ''2024-01-01T00:00:00''), ticks = 0\<rparr>
    in fst (extract_claims_data np (Some ''claims.csv'') w) = Inr [(''claim_id'', Ints [1, 2])]
       \<and> fst (extract_claims_data np (Some ''missing.csv'') w)
           = Inr (fst (generate_sample_claims_data np 0))
       \<and> fst (extract_claims_data np None (snd (extract_claims_data np None w)))
           = fst (extract_claims_data np None w))"
proof -
  let ?np = "\<lparr>seed = (\<lambda>n. n), randint = (\<lambda>lo hi n g. (replicate n lo, Suc g)),
               randint1 = (\<lambda>lo hi g. (lo, Suc g)),
               choice_str = (\<lambda>xs n g. (replicate n (hd xs), Suc g)),
               choice_int = (\<lambda>xs n g. (replicate n (hd xs), Suc g)),
               choice_bool = (\<lambda>xs n g. (replicate n (hd xs), Suc g)),
               choice_norepl = (\<lambda>k n g. ([0..<n], Suc g)),
               exponential = (\<lambda>scale n g. (replicate n scale, Suc g)),
               poisson = (\<lambda>lam n g. (replicate n 3, Suc g)),
               date_range = (\<lambda>a b n. replicate n 0)\<rparr> :: nat numpy"
  let ?w = "\<lparr>files = [''claims.csv'' \<mapsto> Inr [(''claim_id'', Ints [1, 2])]],
              bronze_store = Map.empty, rng = (5::nat),
              clock = (\<lambda>n. ''2024-01-01T00:00:00''), ticks = 0\<rparr>"
  let ?w' = "snd (extract_claims_data ?np None ?w)"
  have h1: "Some ''claims.csv'' = Some ''claims.csv'' \<and> ''claims.csv'' \<noteq> []
      \<and> files ?w ''claims.csv'' = Some (Inr [(''claim_id'', Ints [1, 2])])"
    by simp
  have c1: "fst (extract_claims_data ?np (Some ''claims.csv'') ?w)
      = Inr [(''claim_id'', Ints [1, 2])]"
    using extract_source_or_seeded_sample[where file_path = "Some ''claims.csv''" and w = ?w
        and np = ?np] h1 by blast
  have h2: "(case Some ''missing.csv'' of None \<Rightarrow> True
              | Some p \<Rightarrow> p = [] \<or> files ?w p = None)"
    by simp
  have c2: "fst (extract_claims_data ?np (Some ''missing.csv'') ?w)
           = Inr (fst (generate_sample_claims_data ?np 0))"
    using extract_source_or_seeded_sample[where file_path = "Some ''missing.csv''" and w = ?w
        and np = ?np and file_path' = None and w' = ?w and g = 0] h2
    by simp
  have c3: "fst (extract_claims_data ?np None ?w') = fst (extract_claims_data ?np None ?w)"
    using extract_source_or_seeded_sample[where file_path = None and w = ?w and np = ?np
        and file_path' = None and w' = ?w' and g = 0] by simp
  show ?thesis unfolding Let_def using c1 c2 c3 by blast
qed


end
